theory Spec2Isabelle
  imports Complex_Main "HOL-Library.Word"
begin

section \<open>JavaScript numbers and arrays\<close>

text \<open>
  The program is TypeScript; every quantity it computes is a JavaScript \<open>number\<close>.
  A number is modelled as a real (an IEEE double without rounding and without overflow)
  or as \<open>NaN\<close>. The value \<open>undefined\<close>, which a read outside an array returns, is
  identified with \<open>NaN\<close>: every operator the modelled code applies to such a read
  (\<open>+ - * /\<close>, the comparisons, \<open>Math.max\<close>, \<open>Math.min\<close>, \<open>Math.abs\<close>, \<open>|| 0\<close>, \<open>--\<close>)
  treats the two alike. The operators propagate \<open>NaN\<close>; a comparison with \<open>NaN\<close> is false.

  Division: \<open>x / 0\<close> is an infinity in JavaScript when \<open>x\<close> is not zero, which the model
  cannot express. The modelled code divides by constants (2, 60, 64, 255, 256) and by two
  variable quantities, \<open>binCount - 1\<close> and \<open>waveform.length\<close>; where one of these is zero
  its numerator is zero as well, and \<open>0 / 0\<close> is \<open>NaN\<close>, which is what the model returns.
\<close>

datatype number = Num real | NaN

instantiation number :: "{plus, minus, times, inverse, ord}"
begin

fun plus_number :: "number \<Rightarrow> number \<Rightarrow> number" where
  "plus_number (Num a) (Num b) = Num (a + b)"
| "plus_number _ _ = NaN"

fun minus_number :: "number \<Rightarrow> number \<Rightarrow> number" where
  "minus_number (Num a) (Num b) = Num (a - b)"
| "minus_number _ _ = NaN"

fun times_number :: "number \<Rightarrow> number \<Rightarrow> number" where
  "times_number (Num a) (Num b) = Num (a * b)"
| "times_number _ _ = NaN"

fun divide_number :: "number \<Rightarrow> number \<Rightarrow> number" where
  "divide_number (Num a) (Num b) = (if b = 0 then NaN else Num (a / b))"
| "divide_number _ _ = NaN"

fun inverse_number :: "number \<Rightarrow> number" where
  "inverse_number (Num a) = (if a = 0 then NaN else Num (inverse a))"
| "inverse_number NaN = NaN"

fun less_eq_number :: "number \<Rightarrow> number \<Rightarrow> bool" where
  "less_eq_number (Num a) (Num b) = (a \<le> b)"
| "less_eq_number _ _ = False"

fun less_number :: "number \<Rightarrow> number \<Rightarrow> bool" where
  "less_number (Num a) (Num b) = (a < b)"
| "less_number _ _ = False"

instance ..

end

text \<open>\<open>Math.max\<close>, \<open>Math.min\<close> and \<open>Math.abs\<close>: \<open>NaN\<close> if an argument is \<open>NaN\<close>.\<close>

fun Math_max :: "number \<Rightarrow> number \<Rightarrow> number" where
  "Math_max (Num a) (Num b) = Num (max a b)"
| "Math_max _ _ = NaN"

fun Math_min :: "number \<Rightarrow> number \<Rightarrow> number" where
  "Math_min (Num a) (Num b) = Num (min a b)"
| "Math_min _ _ = NaN"

fun Math_abs :: "number \<Rightarrow> number" where
  "Math_abs (Num a) = Num \<bar>a\<bar>"
| "Math_abs NaN = NaN"

fun Math_floor :: "number \<Rightarrow> number" where
  "Math_floor (Num a) = Num (of_int \<lfloor>a\<rfloor>)"
| "Math_floor NaN = NaN"

fun Math_cos :: "number \<Rightarrow> number" where
  "Math_cos (Num a) = Num (cos a)"
| "Math_cos NaN = NaN"

fun Math_sin :: "number \<Rightarrow> number" where
  "Math_sin (Num a) = Num (sin a)"
| "Math_sin NaN = NaN"

text \<open>
  \<open>Math.pow(a, b)\<close> on the arguments the code gives it: a base that is an array length
  (\<open>0 \<le> a\<close>) and an exponent \<open>0 \<le> b\<close>. \<open>Math.pow(a, 0)\<close> is 1 for every \<open>a\<close>, and
  \<open>Math.pow(0, b)\<close> is 0 for \<open>b > 0\<close>.
\<close>

fun Math_pow :: "number \<Rightarrow> number \<Rightarrow> number" where
  "Math_pow (Num a) (Num b) = (if b = 0 then Num 1 else if a = 0 then Num 0 else Num (a powr b))"
| "Math_pow _ _ = NaN"

text \<open>
  The remainder \<open>a % b\<close> on numbers: the quotient is truncated towards zero, so the result
  has the sign of \<open>a\<close>.
\<close>

definition js_trunc :: "real \<Rightarrow> int" where
  "js_trunc r = (if r < 0 then \<lceil>r\<rceil> else \<lfloor>r\<rfloor>)"

fun js_rem :: "number \<Rightarrow> number \<Rightarrow> number" where
  "js_rem (Num a) (Num b) = (if b = 0 then NaN else Num (a - b * of_int (js_trunc (a / b))))"
| "js_rem _ _ = NaN"

text \<open>\<open>v || 0\<close>: the falsy numbers are \<open>0\<close>, \<open>NaN\<close> and \<open>undefined\<close>.\<close>

fun falsy :: "number \<Rightarrow> bool" where
  "falsy (Num a) = (a = 0)"
| "falsy NaN = True"

definition js_or0 :: "number \<Rightarrow> number" where
  "js_or0 v = (if falsy v then Num 0 else v)"

text \<open>
  Arrays of numbers are lists. \<open>xs[i]\<close> outside the array reads \<open>undefined\<close>; \<open>xs[i] = v\<close>
  outside the array extends it, the cells in between being holes that read \<open>undefined\<close>.
  \<open>js_get_num\<close> is the read at an index that is itself a computed number.
\<close>

definition js_get :: "number list \<Rightarrow> nat \<Rightarrow> number" where
  "js_get xs i = (if i < length xs then xs ! i else NaN)"

definition js_set :: "number list \<Rightarrow> nat \<Rightarrow> number \<Rightarrow> number list" where
  "js_set xs i v =
     (if i < length xs then xs[i := v] else xs @ replicate (i - length xs) NaN @ [v])"

fun js_get_num :: "number list \<Rightarrow> number \<Rightarrow> number" where
  "js_get_num xs (Num r) =
     (if of_int \<lfloor>r\<rfloor> = r \<and> 0 \<le> r \<and> r < real (length xs) then xs ! nat \<lfloor>r\<rfloor> else NaN)"
| "js_get_num xs NaN = NaN"

text \<open>A \<open>Uint8Array\<close> is a list of bytes; a read outside it is \<open>undefined\<close>.\<close>

type_synonym Uint8Array = "8 word list"

fun u8_get :: "Uint8Array \<Rightarrow> number \<Rightarrow> number" where
  "u8_get xs (Num r) =
     (if of_int \<lfloor>r\<rfloor> = r \<and> 0 \<le> r \<and> r < real (length xs)
      then Num (real (unat (xs ! nat \<lfloor>r\<rfloor>))) else NaN)"
| "u8_get xs NaN = NaN"

text \<open>
  \<open>new Array(n)\<close> throws a \<open>RangeError\<close> unless \<open>n\<close> is an array length, an integer in
  \<open>[0, 2^32 - 1]\<close>. It is the only exception the modelled code can raise.
\<close>

datatype error = RangeError

definition new_Array_fill :: "int \<Rightarrow> 'a \<Rightarrow> error + 'a list" where
  "new_Array_fill n v =
     (if n < 0 \<or> 4294967295 < n then Inl RangeError else Inr (replicate (nat n) v))"

section \<open>The visualization manager (\<open>src/lib/visualization-manager.ts\<close>)\<close>

datatype ColorScheme = wmp | modern

text \<open>
  \<open>barCount\<close> is a count: the model takes it as an integer (a \<open>number\<close> with a fraction
  is outside the model).
\<close>

record VisualizationConfig =
  barCount :: int
  colorScheme :: ColorScheme
  peakHold :: bool
  peakDecay :: number
  smoothing :: number
  amplification :: number

text \<open>The private mutable fields of \<open>WMPVisualizationManager\<close>.\<close>

record manager_state =
  peakValues :: "number list"
  peakHoldFrames :: "number list"
  smoothedValues :: "number list"
  rotation :: number

definition PEAK_HOLD_FRAMES :: real where
  "PEAK_HOLD_FRAMES = 30"

text \<open>
  \<open>initializeArrays\<close> and the constructor. The three allocations are made in the source's
  order; the first one throws when \<open>barCount\<close> is not an array length, before any field is
  assigned.
\<close>

definition initializeArrays :: "VisualizationConfig \<Rightarrow> manager_state \<Rightarrow> error + manager_state" where
  "initializeArrays cfg st =
     (case new_Array_fill (barCount cfg) (Num 0) of
        Inl e \<Rightarrow> Inl e
      | Inr zeros \<Rightarrow>
          Inr (st\<lparr>peakValues := zeros, peakHoldFrames := zeros, smoothedValues := zeros\<rparr>))"

definition constructor :: "VisualizationConfig \<Rightarrow> error + manager_state" where
  "constructor cfg =
     initializeArrays cfg
       \<lparr>peakValues = [], peakHoldFrames = [], smoothedValues = [], rotation = Num 0\<rparr>"

text \<open>
  \<open>smoothValue(newValue, index)\<close>. The callers pass a loop index, a natural number. The
  guard returns the new value untouched when the index is past the end of the array.
\<close>

definition smoothValue ::
  "VisualizationConfig \<Rightarrow> manager_state \<Rightarrow> number \<Rightarrow> nat \<Rightarrow> number \<times> manager_state" where
  "smoothValue cfg st newValue index =
     (if index \<ge> length (smoothedValues st) then (newValue, st)
      else
        let oldValue = smoothedValues st ! index;
            smoothed = oldValue + (newValue - oldValue) * smoothing cfg
        in (smoothed, st\<lparr>smoothedValues := (smoothedValues st)[index := smoothed]\<rparr>))"

subsection \<open>Colors\<close>

type_synonym Color = "number \<times> number \<times> number"

definition hsvToRgb :: "number \<Rightarrow> number \<Rightarrow> number \<Rightarrow> Color" where
  "hsvToRgb h0 s v =
     (let h = h0 / Num 60;
          c = v * s;
          x = c * (Num 1 - Math_abs (js_rem h (Num 2) - Num 1));
          m = v - c;
          (r, g, b) =
            (if h \<ge> Num 0 \<and> h < Num 1 then (c, x, Num 0)
             else if h \<ge> Num 1 \<and> h < Num 2 then (x, c, Num 0)
             else if h \<ge> Num 2 \<and> h < Num 3 then (Num 0, c, x)
             else if h \<ge> Num 3 \<and> h < Num 4 then (Num 0, x, c)
             else if h \<ge> Num 4 \<and> h < Num 5 then (x, Num 0, c)
             else (c, Num 0, x))
      in (r + m, g + m, b + m))"

definition calculateWMPColor :: "number \<Rightarrow> Color" where
  "calculateWMPColor intensity =
     (let hue = Num 120 - (intensity * Num 120);
          saturation = Num 1.0;
          value = Math_max (Num 0.3) intensity
      in hsvToRgb hue saturation value)"

definition calculateModernColor :: "number \<Rightarrow> Color" where
  "calculateModernColor intensity =
     (if intensity < Num 0.5 then
        (let t = intensity * Num 2 in (Num 0, t, Num 1))
      else
        (let t = (intensity - Num 0.5) * Num 2 in (t, Num 1, Num 1)))"

definition calculateWaveColor :: "VisualizationConfig \<Rightarrow> number \<Rightarrow> Color" where
  "calculateWaveColor cfg amplitude =
     (if colorScheme cfg = wmp then calculateWMPColor amplitude
      else calculateModernColor amplitude)"

definition calculateCenterGlowColor :: "number \<Rightarrow> Color" where
  "calculateCenterGlowColor intensity =
     (let hue = Num 120 - (intensity * Num 240) in hsvToRgb hue (Num 1.0) (Num 1.0))"

subsection \<open>Bars\<close>

text \<open>
  The fields of the frame records carry the record's name as a prefix, since the source
  uses the plain names (\<open>heights\<close>, \<open>peaks\<close>, \<open>rotation\<close>, ...) for local variables and
  for the manager's own fields as well.
\<close>

record FrequencyData =
  fd_raw :: Uint8Array
  fd_logarithmic :: "number list"
  fd_peaks :: "number list"

record BarVisualizationData =
  bars_heights :: "number list"
  bars_peaks :: "number list"
  bars_colors :: "Color list"

text \<open>
  \<open>calculateBarHeights\<close>: the body of the \<open>for\<close> loop at index \<open>i\<close>, on the pair of the
  \<open>heights\<close> pushed so far and the manager's state, and the loop over
  \<open>0 \<le> i < barCount\<close>.
\<close>

definition calculateBarHeights_body ::
  "VisualizationConfig \<Rightarrow> number list \<Rightarrow> nat \<Rightarrow> number list \<times> manager_state
     \<Rightarrow> number list \<times> manager_state" where
  "calculateBarHeights_body cfg logarithmicData i acc =
     (let (heights, st) = acc;
          value = js_or0 (js_get logarithmicData i);
          height = value * amplification cfg;
          (height, st) = smoothValue cfg st height i;
          height = Math_max (Num 0) (Math_min (Num 1) height)
      in (heights @ [height], st))"

definition calculateBarHeights ::
  "VisualizationConfig \<Rightarrow> manager_state \<Rightarrow> number list \<Rightarrow> number list \<times> manager_state" where
  "calculateBarHeights cfg st logarithmicData =
     fold (calculateBarHeights_body cfg logarithmicData) [0..<nat (barCount cfg)] ([], st)"

text \<open>
  \<open>calculatePeaks\<close>: compare, else hold, else decay, once per band, then push the peak
  (or 0 when \<open>peakHold\<close> is off).
\<close>

definition calculatePeaks_body ::
  "VisualizationConfig \<Rightarrow> number list \<Rightarrow> nat \<Rightarrow> number list \<times> manager_state
     \<Rightarrow> number list \<times> manager_state" where
  "calculatePeaks_body cfg heights i acc =
     (let (peaks, st) = acc;
          currentHeight = heights ! i;
          st =
            (if currentHeight > js_get (peakValues st) i then
               st\<lparr>peakValues := js_set (peakValues st) i currentHeight,
                  peakHoldFrames := js_set (peakHoldFrames st) i (Num PEAK_HOLD_FRAMES)\<rparr>
             else if js_get (peakHoldFrames st) i > Num 0 then
               st\<lparr>peakHoldFrames :=
                    js_set (peakHoldFrames st) i (js_get (peakHoldFrames st) i - Num 1)\<rparr>
             else
               st\<lparr>peakValues :=
                    js_set (peakValues st) i (js_get (peakValues st) i * peakDecay cfg)\<rparr>)
      in (peaks @ [if peakHold cfg then js_get (peakValues st) i else Num 0], st))"

definition calculatePeaks ::
  "VisualizationConfig \<Rightarrow> manager_state \<Rightarrow> number list \<Rightarrow> number list \<times> manager_state" where
  "calculatePeaks cfg st heights =
     fold (calculatePeaks_body cfg heights) [0..<length heights] ([], st)"

definition calculateBarColors ::
  "VisualizationConfig \<Rightarrow> number list \<Rightarrow> number list \<Rightarrow> Color list" where
  "calculateBarColors cfg heights peaks =
     map (\<lambda>i.
            let height = heights ! i;
                peak = js_get peaks i;
                colorValue = Math_max height peak
            in if colorScheme cfg = wmp then calculateWMPColor colorValue
               else calculateModernColor colorValue)
         [0..<length heights]"

definition generateSilentBars :: "VisualizationConfig \<Rightarrow> error + BarVisualizationData" where
  "generateSilentBars cfg =
     (case new_Array_fill (barCount cfg) (Num 0) of
        Inl e \<Rightarrow> Inl e
      | Inr heights \<Rightarrow>
          (case new_Array_fill (barCount cfg) (Num 0) of
             Inl e \<Rightarrow> Inl e
           | Inr peaks \<Rightarrow>
               (case new_Array_fill (barCount cfg) (Num 0.2, Num 0.2, Num 0.2) of
                  Inl e \<Rightarrow> Inl e
                | Inr colors \<Rightarrow>
                    Inr \<lparr>bars_heights = heights, bars_peaks = peaks, bars_colors = colors\<rparr>)))"

text \<open>
  \<open>generateBarsVisualization\<close> returns the frame, or the exception, together with the
  state the manager is left in.
\<close>

definition generateBarsVisualization ::
  "VisualizationConfig \<Rightarrow> manager_state \<Rightarrow> FrequencyData option
     \<Rightarrow> (error + BarVisualizationData) \<times> manager_state" where
  "generateBarsVisualization cfg st frequencyData =
     (case frequencyData of
        None \<Rightarrow> (generateSilentBars cfg, st)
      | Some fd \<Rightarrow>
          (let (heights, st) = calculateBarHeights cfg st (fd_logarithmic fd);
               (peaks, st) = calculatePeaks cfg st heights;
               colors = calculateBarColors cfg heights peaks
           in (Inr \<lparr>bars_heights = heights, bars_peaks = peaks, bars_colors = colors\<rparr>, st)))"

subsection \<open>Circular\<close>

record WaveformData =
  wf_raw :: Uint8Array
  wf_normalized :: "number list"

record Point =
  point_x :: number
  point_y :: number
  point_amplitude :: number
  point_color :: Color

record CenterGlow =
  glow_intensity :: number
  glow_color :: Color

record CircularVisualizationData =
  circ_points :: "Point list"
  circ_rotation :: number
  circ_centerGlow :: CenterGlow

definition calculateAverageAmplitude :: "number list \<Rightarrow> number" where
  "calculateAverageAmplitude waveform =
     fold (\<lambda>value total. total + Math_abs value) waveform (Num 0)
       / Num (real (length waveform))"

definition generateSilentCircular :: "number \<Rightarrow> number \<Rightarrow> CircularVisualizationData" where
  "generateSilentCircular width height =
     (let centerX = width / Num 2;
          centerY = height / Num 2;
          baseRadius = Math_min centerX centerY * Num 0.3;
          pointCount = 256;
          angleStep = (Num pi * Num 2) / Num (real pointCount);
          points =
            map (\<lambda>i.
                   let angle = Num (real i) * angleStep;
                       x = centerX + Math_cos angle * baseRadius;
                       y = centerY + Math_sin angle * baseRadius
                   in \<lparr>point_x = x, point_y = y, point_amplitude = Num 0,
                       point_color = (Num 0.3, Num 0.3, Num 0.3)\<rparr>)
                [0..<pointCount]
      in \<lparr>circ_points = points, circ_rotation = Num 0,
          circ_centerGlow = \<lparr>glow_intensity = Num 0, glow_color = (Num 0, Num 0, Num 0)\<rparr>\<rparr>)"

text \<open>
  The body of the point loop. The smoother's index is \<open>i % this.smoothedValues.length\<close>;
  for an empty array that is \<open>NaN\<close>, which passes the guard of \<open>smoothValue\<close> (the
  comparison is false), reads \<open>undefined\<close>, and makes the smoothed value \<open>NaN\<close>; the store
  at the key \<open>NaN\<close> adds no element to the array.
\<close>

definition generateCircularVisualization_body ::
  "VisualizationConfig \<Rightarrow> number list \<Rightarrow> number \<Rightarrow> number \<Rightarrow> number \<Rightarrow> number \<Rightarrow> nat
     \<Rightarrow> Point list \<times> manager_state \<Rightarrow> Point list \<times> manager_state" where
  "generateCircularVisualization_body cfg normalized centerX centerY baseRadius angleStep i acc =
     (let (points, st) = acc;
          pointCount = 256;
          waveIndex =
            Math_floor ((Num (real i) / Num pointCount) * Num (real (length normalized)));
          amplitude = Math_abs (js_or0 (js_get_num normalized waveIndex));
          (smoothedAmp, st) =
            (if length (smoothedValues st) = 0 then (NaN, st)
             else smoothValue cfg st amplitude (i mod length (smoothedValues st)));
          radiusMultiplier = Num 1 + (smoothedAmp * amplification cfg);
          radius = baseRadius * radiusMultiplier;
          angle = (Num (real i) * angleStep) + rotation st;
          x = centerX + Math_cos angle * radius;
          y = centerY + Math_sin angle * radius;
          color = calculateWaveColor cfg smoothedAmp
      in (points @ [\<lparr>point_x = x, point_y = y, point_amplitude = smoothedAmp,
                       point_color = color\<rparr>], st))"

definition generateCircularVisualization ::
  "VisualizationConfig \<Rightarrow> manager_state \<Rightarrow> WaveformData option \<Rightarrow> number \<Rightarrow> number
     \<Rightarrow> CircularVisualizationData \<times> manager_state" where
  "generateCircularVisualization cfg st waveformData width height =
     (case waveformData of
        None \<Rightarrow> (generateSilentCircular width height, st)
      | Some wd \<Rightarrow>
          (let centerX = width / Num 2;
               centerY = height / Num 2;
               baseRadius = Math_min centerX centerY * Num 0.3;
               avgAmplitude = calculateAverageAmplitude (wf_normalized wd);
               st = st\<lparr>rotation := rotation st + (Num 0.01 + (avgAmplitude * Num 0.05))\<rparr>;
               pointCount = 256;
               angleStep = (Num pi * Num 2) / Num (real pointCount);
               (points, st) =
                 fold (generateCircularVisualization_body cfg (wf_normalized wd)
                         centerX centerY baseRadius angleStep)
                      [0..<pointCount] ([], st);
               centerGlow =
                 \<lparr>glow_intensity = Math_min (avgAmplitude * Num 2) (Num 1),
                  glow_color = calculateCenterGlowColor avgAmplitude\<rparr>
           in (\<lparr>circ_points = points, circ_rotation = rotation st,
                circ_centerGlow = centerGlow\<rparr>, st)))"

section \<open>The audio engine's band mapper (\<open>WMPAudioEngine\<close>)\<close>

definition FREQUENCY_BANDS :: nat where
  "FREQUENCY_BANDS = 64"

definition PEAK_DECAY_RATE :: real where
  "PEAK_DECAY_RATE = 0.95"

text \<open>
  \<open>convertToLogarithmic\<close>, with the number of bands as a parameter; the engine's own
  function is the instance at its constant \<open>FREQUENCY_BANDS\<close>. \<open>logIndex\<close> is the
  source's local of that name, for band \<open>i\<close>.
\<close>

definition logIndex :: "nat \<Rightarrow> Uint8Array \<Rightarrow> nat \<Rightarrow> number" where
  "logIndex bands frequencyData i =
     (let binCount = Num (real (length frequencyData))
      in Math_floor ((Math_pow binCount (Num (real i) / Num (real bands)) - Num 1)
                       / (binCount - Num 1) * binCount))"

definition convertToLogarithmic_bands :: "nat \<Rightarrow> Uint8Array \<Rightarrow> number list" where
  "convertToLogarithmic_bands bands frequencyData =
     (let binCount = Num (real (length frequencyData))
      in map (\<lambda>i.
                let value =
                      u8_get frequencyData
                        (Math_min (logIndex bands frequencyData i) (binCount - Num 1))
                      / Num 255
                in value)
             [0..<bands])"

definition convertToLogarithmic :: "Uint8Array \<Rightarrow> number list" where
  "convertToLogarithmic frequencyData = convertToLogarithmic_bands FREQUENCY_BANDS frequencyData"

definition updatePeaks :: "number list \<Rightarrow> number list \<Rightarrow> number list" where
  "updatePeaks logarithmic peaks =
     fold (\<lambda>i ps. ps[i := Math_max (logarithmic ! i) (ps ! i * Num PEAK_DECAY_RATE)])
          [0..<min (length logarithmic) (length peaks)] peaks"

text \<open>
  \<open>getFrequencyData\<close> once the analyser has written its snapshot into
  \<open>this.frequencyData\<close>: the snapshot is the parameter, the engine's \<open>peaks\<close> the state.
\<close>

definition getFrequencyData :: "number list \<Rightarrow> Uint8Array \<Rightarrow> FrequencyData \<times> number list" where
  "getFrequencyData peaks frequencyData =
     (let logarithmic = convertToLogarithmic frequencyData;
          peaks = updatePeaks logarithmic peaks
      in (\<lparr>fd_raw = frequencyData, fd_logarithmic = logarithmic, fd_peaks = peaks\<rparr>, peaks))"

section \<open>Frame sequences\<close>

text \<open>The smoother called \<open>n\<close> times, once per frame, with the same input and index.\<close>

definition smoothValue_frames ::
  "VisualizationConfig \<Rightarrow> number \<Rightarrow> nat \<Rightarrow> nat \<Rightarrow> manager_state \<Rightarrow> manager_state" where
  "smoothValue_frames cfg newValue index n st =
     ((\<lambda>s. snd (smoothValue cfg s newValue index)) ^^ n) st"

text \<open>
  The peak tracker run over a sequence of frames: \<open>frames t\<close> is the \<open>heights\<close> array handed
  to \<open>calculatePeaks\<close> at frame \<open>t\<close>, and \<open>calculatePeaks_frames cfg frames st t\<close> is the
  manager's state before frame \<open>t\<close>, that is, after the frames \<open>0, ..., t - 1\<close>.
\<close>

primrec calculatePeaks_frames ::
  "VisualizationConfig \<Rightarrow> (nat \<Rightarrow> number list) \<Rightarrow> manager_state \<Rightarrow> nat \<Rightarrow> manager_state" where
  "calculatePeaks_frames cfg frames st 0 = st"
| "calculatePeaks_frames cfg frames st (Suc t) =
     snd (calculatePeaks cfg (calculatePeaks_frames cfg frames st t) (frames t))"

text \<open>
  What one pass of the loop body of \<open>calculatePeaks\<close> does to the pair
  (\<open>peakValues[i]\<close>, \<open>peakHoldFrames[i]\<close>) of a band inside both arrays; the lemma
  \<open>calculatePeaks_body_in_range\<close> below derives it from the body.
\<close>

definition band_step ::
  "VisualizationConfig \<Rightarrow> number \<Rightarrow> number \<times> number \<Rightarrow> number \<times> number" where
  "band_step cfg h pf =
     (let (p, f) = pf in
      if h > p then (h, Num PEAK_HOLD_FRAMES)
      else if f > Num 0 then (p, f - Num 1)
      else (p * peakDecay cfg, f))"

section \<open>Properties\<close>

lemma smoothValue_in_range:
  assumes "index < length (smoothedValues st)"
  shows "smoothValue cfg st newValue index =
           (smoothedValues st ! index + (newValue - smoothedValues st ! index) * smoothing cfg,
            st\<lparr>smoothedValues := (smoothedValues st)
                  [index := smoothedValues st ! index
                            + (newValue - smoothedValues st ! index) * smoothing cfg]\<rparr>)"
  using assms by (simp add: smoothValue_def Let_def)

subsection \<open>The temporal smoother\<close>

lemma smoothValue_frames_closed:
  assumes "index < length (smoothedValues st)"
    and "smoothedValues st ! index = Num s0"
    and "smoothing cfg = Num f"
  shows "length (smoothedValues (smoothValue_frames cfg (Num v) index n st))
           = length (smoothedValues st)
       \<and> smoothedValues (smoothValue_frames cfg (Num v) index n st) ! index
           = Num (v + (s0 - v) * (1 - f) ^ n)"
proof (induction n)
  case 0
  show ?case using assms by (simp add: smoothValue_frames_def)
next
  case (Suc n)
  let ?s = "smoothValue_frames cfg (Num v) index n st"
  have step: "smoothValue_frames cfg (Num v) index (Suc n) st
                = snd (smoothValue cfg ?s (Num v) index)"
    by (simp add: smoothValue_frames_def)
  from Suc assms(1) have inr: "index < length (smoothedValues ?s)" by simp
  show ?case
    unfolding step using Suc inr assms(3)
    by (simp add: smoothValue_in_range algebra_simps)
qed

lemma geometric_error_vanishes:
  fixes f :: real
  assumes "0 < f" "f \<le> 1"
  shows "(\<lambda>n. v + (s0 - v) * (1 - f) ^ n) \<longlonglongrightarrow> v"
proof -
  have "(\<lambda>n. (1 - f) ^ n) \<longlonglongrightarrow> 0"
    by (rule LIMSEQ_realpow_zero) (use assms in auto)
  then have "(\<lambda>n. v + (s0 - v) * (1 - f) ^ n) \<longlonglongrightarrow> v + (s0 - v) * 0"
    by (intro tendsto_add tendsto_const tendsto_mult_left)
  then show ?thesis by simp
qed

text \<open>
  Claim C9. For an index inside the state array and a smoothing factor \<open>f\<close> in \<open>(0, 1]\<close>,
  feeding the smoother the constant input \<open>v\<close> frame after frame takes the state at that
  index from \<open>s0\<close> to \<open>v + (s0 - v) * (1 - f)^n\<close> after \<open>n\<close> frames, a sequence that converges
  to \<open>v\<close>; and when the state already equals \<open>v\<close>, a call with input \<open>v\<close> returns \<open>v\<close> and
  leaves the whole state as it was.
\<close>

theorem smoothValue_steady_state:
  assumes "index < length (smoothedValues st)"
    and "smoothedValues st ! index = Num s0"
    and "smoothing cfg = Num f"
    and "0 < f" and "f \<le> 1"
  shows "(\<forall>n. smoothedValues (smoothValue_frames cfg (Num v) index n st) ! index
               = Num (v + (s0 - v) * (1 - f) ^ n))
       \<and> (\<lambda>n. v + (s0 - v) * (1 - f) ^ n) \<longlonglongrightarrow> v
       \<and> (s0 = v \<longrightarrow> smoothValue cfg st (Num v) index = (Num v, st))"
proof (intro conjI allI impI)
  fix n
  show "smoothedValues (smoothValue_frames cfg (Num v) index n st) ! index
          = Num (v + (s0 - v) * (1 - f) ^ n)"
    using smoothValue_frames_closed[OF assms(1,2,3)] by simp
next
  show "(\<lambda>n. v + (s0 - v) * (1 - f) ^ n) \<longlonglongrightarrow> v"
    using assms(4,5) by (rule geometric_error_vanishes)
next
  assume "s0 = v"
  with assms(1,2) have same: "(smoothedValues st)[index := Num v] = smoothedValues st"
    by (simp add: list_update_same_conv)
  from \<open>s0 = v\<close> assms(1,2,3) show "smoothValue cfg st (Num v) index = (Num v, st)"
    by (simp add: smoothValue_in_range same)
qed

theorem smoothValue_steady_state_witness:
  "(0::nat) < length (smoothedValues
       \<lparr>peakValues = [Num 0], peakHoldFrames = [Num 0], smoothedValues = [Num 0],
        rotation = Num 0\<rparr>)
   \<and> smoothing \<lparr>barCount = 1, colorScheme = wmp, peakHold = True, peakDecay = Num 0.95,
        smoothing = Num (1 / 2), amplification = Num 1\<rparr> = Num (1 / 2)
   \<and> (0::real) < 1 / 2 \<and> (1 / 2 :: real) \<le> 1
   \<and> smoothedValues
        (smoothValue_frames
           \<lparr>barCount = 1, colorScheme = wmp, peakHold = True, peakDecay = Num 0.95,
            smoothing = Num (1 / 2), amplification = Num 1\<rparr>
           (Num 1) 0 3
           \<lparr>peakValues = [Num 0], peakHoldFrames = [Num 0], smoothedValues = [Num 0],
            rotation = Num 0\<rparr>) ! 0 = Num (7 / 8)
   \<and> (\<lambda>n. 1 + (0 - 1) * (1 - 1 / 2) ^ n) \<longlonglongrightarrow> (1::real)"
  using smoothValue_steady_state
    [of 0 "\<lparr>peakValues = [Num 0], peakHoldFrames = [Num 0], smoothedValues = [Num 0],
            rotation = Num 0\<rparr>" 0
        "\<lparr>barCount = 1, colorScheme = wmp, peakHold = True, peakDecay = Num 0.95,
          smoothing = Num (1 / 2), amplification = Num 1\<rparr>" "1 / 2" 1]
  by (simp add: power3_eq_cube)

text \<open>
  Claim C7, as amended. The smoother has no failure: for an index at or past the end of its
  state array the guard returns the raw input value itself and leaves the state untouched.
\<close>

theorem smoothValue_out_of_range:
  assumes "length (smoothedValues st) \<le> index"
  shows "smoothValue cfg st newValue index = (newValue, st)"
  using assms by (simp add: smoothValue_def)

theorem smoothValue_out_of_range_witness:
  "length (smoothedValues
       \<lparr>peakValues = [Num 0], peakHoldFrames = [Num 0], smoothedValues = [Num 0],
        rotation = Num 0\<rparr>) \<le> (4::nat)
   \<and> smoothValue
        \<lparr>barCount = 1, colorScheme = wmp, peakHold = True, peakDecay = Num 0.95,
         smoothing = Num 0.8, amplification = Num 1\<rparr>
        \<lparr>peakValues = [Num 0], peakHoldFrames = [Num 0], smoothedValues = [Num 0],
         rotation = Num 0\<rparr>
        (Num 0.25) 4
      = (Num 0.25,
         \<lparr>peakValues = [Num 0], peakHoldFrames = [Num 0], smoothedValues = [Num 0],
          rotation = Num 0\<rparr>)"
  using smoothValue_out_of_range
    [of "\<lparr>peakValues = [Num 0], peakHoldFrames = [Num 0], smoothedValues = [Num 0],
          rotation = Num 0\<rparr>" 4
        "\<lparr>barCount = 1, colorScheme = wmp, peakHold = True, peakDecay = Num 0.95,
          smoothing = Num 0.8, amplification = Num 1\<rparr>" "Num 0.25"]
  by simp

text \<open>
  Claim C7 as stated fails: with a state array of three cells, the call at index 3 returns
  a value, the input \<open>0.5\<close>, and raises nothing.
\<close>

theorem smoothValue_index_counterexample:
  "smoothValue
     \<lparr>barCount = 3, colorScheme = wmp, peakHold = True, peakDecay = Num 0.95,
      smoothing = Num 0.8, amplification = Num 1\<rparr>
     \<lparr>peakValues = [Num 0, Num 0, Num 0], peakHoldFrames = [Num 0, Num 0, Num 0],
      smoothedValues = [Num 0, Num 0, Num 0], rotation = Num 0\<rparr>
     (Num 0.5) 3
   = (Num 0.5,
      \<lparr>peakValues = [Num 0, Num 0, Num 0], peakHoldFrames = [Num 0, Num 0, Num 0],
       smoothedValues = [Num 0, Num 0, Num 0], rotation = Num 0\<rparr>)"
  by (simp add: smoothValue_def)

subsection \<open>The peak tracker\<close>

lemma calculatePeaks_body_in_range:
  assumes "i < length (peakValues st)" "i < length (peakHoldFrames st)"
  shows "calculatePeaks_body cfg heights i (peaks, st) =
     (let (p, f) = band_step cfg (heights ! i) (peakValues st ! i, peakHoldFrames st ! i)
      in (peaks @ [if peakHold cfg then p else Num 0],
          st\<lparr>peakValues := (peakValues st)[i := p],
             peakHoldFrames := (peakHoldFrames st)[i := f]\<rparr>))"
  using assms
  by (simp add: calculatePeaks_body_def band_step_def js_get_def js_set_def Let_def
      list_update_same_conv)

text \<open>
  The loop of \<open>calculatePeaks\<close> after \<open>k\<close> iterations: the bands below \<open>k\<close> have made one
  step each, the others are untouched, and nothing but the two peak arrays has changed.
\<close>

lemma calculatePeaks_prefix:
  assumes "k \<le> length (peakValues st)" "k \<le> length (peakHoldFrames st)"
  shows "\<exists>peaks st'. fold (calculatePeaks_body cfg heights) [0..<k] ([], st) = (peaks, st')
     \<and> length peaks = k
     \<and> length (peakValues st') = length (peakValues st)
     \<and> length (peakHoldFrames st') = length (peakHoldFrames st)
     \<and> smoothedValues st' = smoothedValues st \<and> rotation st' = rotation st
     \<and> (\<forall>i<k. (peakValues st' ! i, peakHoldFrames st' ! i)
                  = band_step cfg (heights ! i) (peakValues st ! i, peakHoldFrames st ! i)
              \<and> peaks ! i = (if peakHold cfg then peakValues st' ! i else Num 0))
     \<and> (\<forall>i\<ge>k. peakValues st' ! i = peakValues st ! i
              \<and> peakHoldFrames st' ! i = peakHoldFrames st ! i)"
  using assms
proof (induction k)
  case 0
  then show ?case by simp
next
  case (Suc k)
  then obtain peaks st' where
    f: "fold (calculatePeaks_body cfg heights) [0..<k] ([], st) = (peaks, st')"
    and lp: "length peaks = k"
    and l1: "length (peakValues st') = length (peakValues st)"
    and l2: "length (peakHoldFrames st') = length (peakHoldFrames st)"
    and sm: "smoothedValues st' = smoothedValues st" "rotation st' = rotation st"
    and lo: "\<forall>i<k. (peakValues st' ! i, peakHoldFrames st' ! i)
                  = band_step cfg (heights ! i) (peakValues st ! i, peakHoldFrames st ! i)
              \<and> peaks ! i = (if peakHold cfg then peakValues st' ! i else Num 0)"
    and hi: "\<forall>i\<ge>k. peakValues st' ! i = peakValues st ! i
              \<and> peakHoldFrames st' ! i = peakHoldFrames st ! i"
    by auto
  from Suc.prems l1 l2
  have k1: "k < length (peakValues st')" and k2: "k < length (peakHoldFrames st')"
    by simp_all
  obtain p f' where
    bs: "band_step cfg (heights ! k) (peakValues st' ! k, peakHoldFrames st' ! k) = (p, f')"
    by (cases "band_step cfg (heights ! k) (peakValues st' ! k, peakHoldFrames st' ! k)")
  have step: "fold (calculatePeaks_body cfg heights) [0..<Suc k] ([], st)
      = (peaks @ [if peakHold cfg then p else Num 0],
          st'\<lparr>peakValues := (peakValues st')[k := p],
              peakHoldFrames := (peakHoldFrames st')[k := f']\<rparr>)"
    by (simp add: f calculatePeaks_body_in_range[OF k1 k2] bs)
  from hi have same: "peakValues st' ! k = peakValues st ! k"
    "peakHoldFrames st' ! k = peakHoldFrames st ! k"
    by simp_all
  show ?case
    unfolding step
    using lp l1 l2 sm lo hi k1 k2 bs same
    by (auto simp add: nth_append nth_list_update less_Suc_eq)
qed

lemma calculatePeaks_band:
  assumes "length heights \<le> length (peakValues st)"
    and "length heights \<le> length (peakHoldFrames st)"
  shows "length (peakValues (snd (calculatePeaks cfg st heights))) = length (peakValues st)"
    and "length (peakHoldFrames (snd (calculatePeaks cfg st heights)))
           = length (peakHoldFrames st)"
    and "length (fst (calculatePeaks cfg st heights)) = length heights"
    and "i < length heights \<Longrightarrow>
          (peakValues (snd (calculatePeaks cfg st heights)) ! i,
           peakHoldFrames (snd (calculatePeaks cfg st heights)) ! i)
          = band_step cfg (heights ! i) (peakValues st ! i, peakHoldFrames st ! i)"
    and "i < length heights \<Longrightarrow>
          fst (calculatePeaks cfg st heights) ! i
          = (if peakHold cfg then peakValues (snd (calculatePeaks cfg st heights)) ! i
             else Num 0)"
    and "smoothedValues (snd (calculatePeaks cfg st heights)) = smoothedValues st"
  using calculatePeaks_prefix[OF assms, of cfg heights]
  by (auto simp add: calculatePeaks_def)

text \<open>
  The band's pair (\<open>value\<close>, \<open>holdFramesRemaining\<close>) after each frame of the step input:
  the hold counter runs from 30 down to 0 over the frames 0 to 30, and the decay starts at
  frame 31.
\<close>

lemma step_response_band:
  assumes decay: "peakDecay cfg = Num 0.95"
    and len: "\<forall>t. i < length (frames t) \<and> length (frames t) \<le> length (peakValues st)
                 \<and> length (frames t) \<le> length (peakHoldFrames st)"
    and zero: "peakValues st ! i = Num 0" "peakHoldFrames st ! i = Num 0"
    and first: "frames 0 ! i = Num 1"
    and later: "\<forall>t. frames (Suc t) ! i = Num 0"
  shows "length (peakValues (calculatePeaks_frames cfg frames st t)) = length (peakValues st)
       \<and> length (peakHoldFrames (calculatePeaks_frames cfg frames st t))
           = length (peakHoldFrames st)
       \<and> (peakValues (calculatePeaks_frames cfg frames st (Suc t)) ! i,
          peakHoldFrames (calculatePeaks_frames cfg frames st (Suc t)) ! i)
         = (if t \<le> 30 then (Num 1, Num (30 - real t)) else (Num (0.95 ^ (t - 30)), Num 0))"
proof (induction t)
  case 0
  from len have l: "i < length (frames 0)" "length (frames 0) \<le> length (peakValues st)"
    "length (frames 0) \<le> length (peakHoldFrames st)" by auto
  show ?case
    using calculatePeaks_band(4)[OF l(2,3) l(1), of cfg] zero first
    by (simp add: band_step_def PEAK_HOLD_FRAMES_def)
next
  case (Suc t)
  let ?s = "calculatePeaks_frames cfg frames st (Suc t)"
  let ?h = "frames (Suc t)"
  from len have l0: "length (frames t) \<le> length (peakValues st)"
    "length (frames t) \<le> length (peakHoldFrames st)" by auto
  from Suc
  have lt: "length (peakValues (calculatePeaks_frames cfg frames st t))
              = length (peakValues st)"
    "length (peakHoldFrames (calculatePeaks_frames cfg frames st t))
              = length (peakHoldFrames st)"
    by simp_all
  have ls: "length (peakValues ?s) = length (peakValues st)"
    "length (peakHoldFrames ?s) = length (peakHoldFrames st)"
    using calculatePeaks_band(1,2)[of "frames t" "calculatePeaks_frames cfg frames st t" cfg]
      l0 lt
    by simp_all
  from len ls have l: "i < length ?h" "length ?h \<le> length (peakValues ?s)"
    "length ?h \<le> length (peakHoldFrames ?s)" by auto
  have bs: "(peakValues (calculatePeaks_frames cfg frames st (Suc (Suc t))) ! i,
          peakHoldFrames (calculatePeaks_frames cfg frames st (Suc (Suc t))) ! i)
     = band_step cfg (Num 0) (peakValues ?s ! i, peakHoldFrames ?s ! i)"
    using calculatePeaks_band(4)[OF l(2,3) l(1), of cfg] later by simp
  from Suc have prev: "(peakValues ?s ! i, peakHoldFrames ?s ! i)
         = (if t \<le> 30 then (Num 1, Num (30 - real t)) else (Num (0.95 ^ (t - 30)), Num 0))"
    by simp
  have pos: "(0::real) < 0.95 ^ (t - 30)" by simp
  have "band_step cfg (Num 0) (peakValues ?s ! i, peakHoldFrames ?s ! i)
     = (if Suc t \<le> 30 then (Num 1, Num (30 - real (Suc t)))
        else (Num (0.95 ^ (Suc t - 30)), Num 0))"
  proof (cases "t < 30")
    case True
    then show ?thesis unfolding prev by (simp add: band_step_def)
  next
    case False
    show ?thesis
    proof (cases "t = 30")
      case True
      then show ?thesis unfolding prev by (simp add: band_step_def decay)
    next
      case False
      with \<open>\<not> t < 30\<close> have gt: "30 < t" by simp
      then have "Suc t - 30 = Suc (t - 30)" by simp
      with gt pos show ?thesis unfolding prev
        by (simp add: band_step_def decay not_less[symmetric] del: not_less)
    qed
  qed
  with bs ls show ?case by simp
qed

text \<open>
  Claim C1. A band starts with peak value 0 and hold counter 0 (the state the constructor
  and \<open>reset\<close> leave), the decay rate is 0.95, and the height handed to \<open>calculatePeaks\<close>
  for that band is 1 at frame 0 and 0 at every later frame; the other bands are arbitrary.
  Then \<open>peakValues\<close> of the band after frame \<open>t\<close> is 1 for every \<open>t\<close> from 0 to 30 and
  \<open>0.95^k\<close> at frame \<open>30 + k\<close>; with \<open>peakHold\<close> on, the peak the frame returns for the band
  is that value.
\<close>

theorem peak_step_response:
  assumes "peakDecay cfg = Num 0.95"
    and "\<forall>t. i < length (frames t) \<and> length (frames t) \<le> length (peakValues st)
                 \<and> length (frames t) \<le> length (peakHoldFrames st)"
    and "peakValues st ! i = Num 0" and "peakHoldFrames st ! i = Num 0"
    and "frames 0 ! i = Num 1"
    and "\<forall>t. frames (Suc t) ! i = Num 0"
  shows "peakValues (calculatePeaks_frames cfg frames st (Suc t)) ! i
           = Num (if t \<le> 30 then 1 else 0.95 ^ (t - 30))
       \<and> peakValues (calculatePeaks_frames cfg frames st (Suc (30 + k))) ! i = Num (0.95 ^ k)
       \<and> (peakHold cfg \<longrightarrow>
            fst (calculatePeaks cfg (calculatePeaks_frames cfg frames st t) (frames t)) ! i
              = Num (if t \<le> 30 then 1 else 0.95 ^ (t - 30)))"
proof (intro conjI impI)
  note sr = step_response_band[OF assms]
  show v: "peakValues (calculatePeaks_frames cfg frames st (Suc t)) ! i
           = Num (if t \<le> 30 then 1 else 0.95 ^ (t - 30))"
    using sr[of t] by (simp split: if_splits)
  show "peakValues (calculatePeaks_frames cfg frames st (Suc (30 + k))) ! i = Num (0.95 ^ k)"
    using sr[of "30 + k"] by (cases k) (simp_all split: if_splits)
  assume ph: "peakHold cfg"
  let ?s = "calculatePeaks_frames cfg frames st t"
  from assms(2) sr[of t]
  have l: "i < length (frames t)" "length (frames t) \<le> length (peakValues ?s)"
    "length (frames t) \<le> length (peakHoldFrames ?s)" by auto
  from calculatePeaks_band(5)[OF l(2,3) l(1), of cfg] ph v
  show "fst (calculatePeaks cfg ?s (frames t)) ! i = Num (if t \<le> 30 then 1 else 0.95 ^ (t - 30))"
    by simp
qed

theorem peak_step_response_witness:
  "peakDecay \<lparr>barCount = 1, colorScheme = wmp, peakHold = True, peakDecay = Num 0.95,
      smoothing = Num 0.8, amplification = Num 1\<rparr> = Num 0.95
   \<and> (\<forall>t. (0::nat) < length (if t = 0 then [Num 1] else [Num 0]))
   \<and> (if (0::nat) = 0 then [Num 1] else [Num 0]) ! 0 = Num 1
   \<and> (\<forall>t. (if Suc t = 0 then [Num 1] else [Num 0]) ! 0 = Num 0)
   \<and> peakValues
        (calculatePeaks_frames
           \<lparr>barCount = 1, colorScheme = wmp, peakHold = True, peakDecay = Num 0.95,
            smoothing = Num 0.8, amplification = Num 1\<rparr>
           (\<lambda>t. if t = 0 then [Num 1] else [Num 0])
           \<lparr>peakValues = [Num 0], peakHoldFrames = [Num 0], smoothedValues = [Num 0],
            rotation = Num 0\<rparr>
           (Suc 30)) ! 0 = Num 1
   \<and> peakValues
        (calculatePeaks_frames
           \<lparr>barCount = 1, colorScheme = wmp, peakHold = True, peakDecay = Num 0.95,
            smoothing = Num 0.8, amplification = Num 1\<rparr>
           (\<lambda>t. if t = 0 then [Num 1] else [Num 0])
           \<lparr>peakValues = [Num 0], peakHoldFrames = [Num 0], smoothedValues = [Num 0],
            rotation = Num 0\<rparr>
           (Suc (30 + 2))) ! 0 = Num (0.95 ^ 2)"
  using peak_step_response
    [of "\<lparr>barCount = 1, colorScheme = wmp, peakHold = True, peakDecay = Num 0.95,
          smoothing = Num 0.8, amplification = Num 1\<rparr>"
        0 "\<lambda>t. if t = 0 then [Num 1] else [Num 0]"
        "\<lparr>peakValues = [Num 0], peakHoldFrames = [Num 0], smoothedValues = [Num 0],
          rotation = Num 0\<rparr>" 30 2]
  by simp

subsection \<open>The band mapper\<close>

lemma logIndex_value:
  assumes "2 \<le> length fd" "0 < bands"
  shows "logIndex bands fd i =
     Num (of_int \<lfloor>(real (length fd) powr (real i / real bands) - 1) / (real (length fd) - 1)
                  * real (length fd)\<rfloor>)"
  using assms by (simp add: logIndex_def Let_def)

lemma powr_unit_bounds:
  fixes x :: real
  assumes "2 \<le> x" "0 \<le> e" "e < 1"
  shows "1 \<le> x powr e" "x powr e < x"
proof -
  show "1 \<le> x powr e" using assms by (simp add: ge_one_powr_ge_zero)
  have "x powr e < x powr 1" using assms by (intro powr_less_mono) auto
  then show "x powr e < x" using assms by simp
qed

lemma warped_bounds:
  fixes x y :: real
  assumes "2 \<le> x" "1 \<le> y" "y < x"
  shows "0 \<le> (y - 1) / (x - 1) * x" "(y - 1) / (x - 1) * x < x"
proof -
  from assms have p: "0 < x - 1" "0 \<le> y - 1" "y - 1 < x - 1" by auto
  then show "0 \<le> (y - 1) / (x - 1) * x" using assms by simp
  from p have "(y - 1) / (x - 1) < 1" by simp
  moreover from assms have "0 < x" by simp
  ultimately have "(y - 1) / (x - 1) * x < 1 * x" by (rule mult_strict_right_mono)
  then show "(y - 1) / (x - 1) * x < x" by (simp only: mult_1)
qed

text \<open>
  For a snapshot of at least two bins, \<open>logIndex\<close> is a bin of the snapshot, so the clamp
  \<open>Math.min(logIndex, binCount - 1)\<close> leaves it as it is.
\<close>

lemma logIndex_in_range:
  assumes "2 \<le> length fd" "i < bands"
  shows "\<exists>k. logIndex bands fd i = Num (real k) \<and> k < length fd"
proof -
  let ?N = "real (length fd)"
  let ?e = "real i / real bands"
  let ?v = "(?N powr ?e - 1) / (?N - 1) * ?N"
  from assms have b: "0 < bands" by simp
  from assms have e: "0 \<le> ?e" "?e < 1" by simp_all
  from assms have N: "2 \<le> ?N" by simp
  note pb = powr_unit_bounds[OF N e]
  note wb = warped_bounds[OF N pb]
  from wb(1) have f0: "0 \<le> \<lfloor>?v\<rfloor>" by simp
  from wb(2) have fl: "\<lfloor>?v\<rfloor> < int (length fd)"
    by (simp only: floor_less_iff of_int_of_nat_eq)
  from f0 fl have "nat \<lfloor>?v\<rfloor> < length fd" by linarith
  moreover from f0 have "real (nat \<lfloor>?v\<rfloor>) = of_int \<lfloor>?v\<rfloor>" by (simp only: of_nat_nat)
  ultimately
  have "logIndex bands fd i = Num (real (nat \<lfloor>?v\<rfloor>)) \<and> nat \<lfloor>?v\<rfloor> < length fd"
    using logIndex_value[OF assms(1) b, of i] by (simp only:)
  then show ?thesis by blast
qed

lemma band_value:
  assumes "2 \<le> length fd" "i < bands" "logIndex bands fd i = Num (real k)" "k < length fd"
  shows "convertToLogarithmic_bands bands fd ! i = Num (real (unat (fd ! k)) / 255)"
  using assms by (simp add: convertToLogarithmic_bands_def Let_def min_def)

lemma byte_fraction:
  fixes b :: "8 word"
  shows "0 \<le> real (unat b) / 255" "real (unat b) / 255 \<le> 1"
proof -
  have "unat b < 256" using unsigned_less[of b, where 'a=nat] by simp
  then show "real (unat b) / 255 \<le> 1" by linarith
  show "0 \<le> real (unat b) / 255" by linarith
qed

text \<open>
  Claim C4. For every band count of at least 1 and every snapshot of at least two bins
  (a \<open>Uint8Array\<close>, so each entry is in 0..255), the band mapper returns exactly that many
  values, each a number in \<open>[0, 1]\<close>.
\<close>

theorem convertToLogarithmic_shape:
  assumes "1 \<le> bands" "2 \<le> length fd"
  shows "length (convertToLogarithmic_bands bands fd) = bands \<and>
     (\<forall>v \<in> set (convertToLogarithmic_bands bands fd). \<exists>r. v = Num r \<and> 0 \<le> r \<and> r \<le> 1)"
proof
  show "length (convertToLogarithmic_bands bands fd) = bands"
    by (simp add: convertToLogarithmic_bands_def)
  show "\<forall>v \<in> set (convertToLogarithmic_bands bands fd). \<exists>r. v = Num r \<and> 0 \<le> r \<and> r \<le> 1"
  proof
    fix v assume "v \<in> set (convertToLogarithmic_bands bands fd)"
    then obtain i where i: "i < bands" and v: "v = convertToLogarithmic_bands bands fd ! i"
      by (auto simp add: in_set_conv_nth convertToLogarithmic_bands_def)
    from logIndex_in_range[OF assms(2) i] obtain k
      where k: "logIndex bands fd i = Num (real k)" "k < length fd" by auto
    show "\<exists>r. v = Num r \<and> 0 \<le> r \<and> r \<le> 1"
      using v band_value[OF assms(2) i k] byte_fraction[of "fd ! k"] by blast
  qed
qed

theorem convertToLogarithmic_shape_witness:
  "(1::nat) \<le> 64 \<and> 2 \<le> length [0, 255 :: 8 word]
   \<and> length (convertToLogarithmic_bands 64 [0, 255]) = 64
   \<and> (\<exists>r. convertToLogarithmic_bands 64 [0, 255] ! 63 = Num r \<and> 0 \<le> r \<and> r \<le> 1)"
proof -
  have h: "(1::nat) \<le> 64" "2 \<le> length [0, 255 :: 8 word]" by simp_all
  note shape = convertToLogarithmic_shape[OF h]
  from shape have len: "length (convertToLogarithmic_bands 64 [0, 255]) = 64" by blast
  then have "convertToLogarithmic_bands 64 [0, 255] ! 63
               \<in> set (convertToLogarithmic_bands 64 [0, 255])"
    by simp
  with shape have "\<exists>r. convertToLogarithmic_bands 64 [0, 255] ! 63 = Num r \<and> 0 \<le> r \<and> r \<le> 1"
    by blast
  with h len show ?thesis by blast
qed

text \<open>Bounds on a rational power from integer powers.\<close>

lemma powr_ratio_ge:
  fixes x a :: real
  assumes "0 < x" "0 < q" "a ^ q \<le> x ^ p"
  shows "a \<le> x powr (real p / real q)"
proof -
  let ?y = "x powr (real p / real q)"
  have "?y ^ q = ?y powr real q" using assms(1) by (simp add: powr_realpow)
  also have "\<dots> = x powr real p" using assms(2) by (simp add: powr_powr)
  also have "\<dots> = x ^ p" using assms(1) by (simp add: powr_realpow)
  finally have yq: "?y ^ q = x ^ p" .
  from assms(2) obtain n where q: "q = Suc n" by (cases q) auto
  from assms(3) yq have "a ^ Suc n \<le> ?y ^ Suc n" by (simp add: q)
  then show ?thesis by (rule power_le_imp_le_base) simp
qed

lemma powr_ratio_less:
  fixes x b :: real
  assumes "0 < x" "0 < q" "0 \<le> b" "x ^ p < b ^ q"
  shows "x powr (real p / real q) < b"
proof -
  let ?y = "x powr (real p / real q)"
  have "?y ^ q = ?y powr real q" using assms(1) by (simp add: powr_realpow)
  also have "\<dots> = x powr real p" using assms(2) by (simp add: powr_powr)
  also have "\<dots> = x ^ p" using assms(1) by (simp add: powr_realpow)
  finally have yq: "?y ^ q = x ^ p" .
  with assms(4) have "?y ^ q < b ^ q" by simp
  then show ?thesis using assms(3) by (rule power_less_imp_less_base)
qed

lemma top_band_power:
  "(1837 / 2 :: real) \<le> 1024 powr (63 / 64)" "(1024::real) powr (63 / 64) < 919"
proof -
  have "(1837 / 2 :: real) ^ 64 \<le> 1024 ^ 63" by (simp add: power_divide)
  from powr_ratio_ge[OF _ _ this] show "(1837 / 2 :: real) \<le> 1024 powr (63 / 64)" by simp
  have "(1024 :: real) ^ 63 < 919 ^ 64" by simp
  from powr_ratio_less[OF _ _ _ this] show "(1024::real) powr (63 / 64) < 919" by simp
qed

lemma top_band_floor:
  "\<lfloor>((1024::real) powr (63 / 64) - 1) / 1023 * 1024\<rfloor> = 918"
proof -
  let ?y = "(1024::real) powr (63 / 64)"
  note b = top_band_power
  have "918 \<le> (?y - 1) / 1023 * 1024" using b(1) by simp
  moreover have "(?y - 1) / 1023 * 1024 < 919" using b(2) by simp
  ultimately show ?thesis by linarith
qed

text \<open>
  Claim C2, as amended. For a snapshot of 1024 bins and the engine's 64 bands, the warped
  index is 0 for band 0 and 918 for band 63 (\<open>1024^(63/64)\<close> is about 918.9), inside the
  snapshot, so the clamp leaves it and band 63 reads bin 918.
\<close>

theorem logIndex_boundary_bands:
  assumes "length fd = 1024"
  shows "logIndex FREQUENCY_BANDS fd 0 = Num 0
       \<and> Math_min (logIndex FREQUENCY_BANDS fd 0) (Num (real (length fd)) - Num 1) = Num 0
       \<and> logIndex FREQUENCY_BANDS fd 63 = Num 918
       \<and> Math_min (logIndex FREQUENCY_BANDS fd 63) (Num (real (length fd)) - Num 1) = Num 918
       \<and> convertToLogarithmic fd ! 63 = Num (real (unat (fd ! 918)) / 255)"
proof -
  have l0: "logIndex FREQUENCY_BANDS fd 0 = Num 0"
    using assms by (simp add: logIndex_def FREQUENCY_BANDS_def)
  have l63: "logIndex FREQUENCY_BANDS fd 63 = Num 918"
    using assms top_band_floor by (simp add: logIndex_def FREQUENCY_BANDS_def)
  have "logIndex FREQUENCY_BANDS fd 63 = Num (real (918::nat))" using l63 by simp
  from band_value[OF _ _ this] assms
  have "convertToLogarithmic fd ! 63 = Num (real (unat (fd ! 918)) / 255)"
    by (simp add: convertToLogarithmic_def FREQUENCY_BANDS_def)
  with l0 l63 assms show ?thesis by simp
qed

theorem logIndex_boundary_bands_witness:
  "length (replicate 1024 (0 :: 8 word)) = 1024
   \<and> logIndex FREQUENCY_BANDS (replicate 1024 0) 0 = Num 0
   \<and> logIndex FREQUENCY_BANDS (replicate 1024 0) 63 = Num 918"
  using logIndex_boundary_bands[of "replicate 1024 0"] by simp

text \<open>
  Claim C2 as stated fails at band 63: its warped index is not 1023.
\<close>

theorem logIndex_top_band_counterexample:
  "logIndex FREQUENCY_BANDS (replicate 1024 0) 63 \<noteq> Num 1023"
proof -
  have "logIndex FREQUENCY_BANDS (replicate 1024 0) 63 = Num 918"
    using top_band_floor by (simp add: logIndex_def FREQUENCY_BANDS_def)
  then show ?thesis by simp
qed

subsection \<open>Silence frames\<close>

lemma generateSilentBars_result:
  "generateSilentBars cfg =
     (if barCount cfg < 0 \<or> 4294967295 < barCount cfg then Inl RangeError
      else Inr \<lparr>bars_heights = replicate (nat (barCount cfg)) (Num 0),
                bars_peaks = replicate (nat (barCount cfg)) (Num 0),
                bars_colors = replicate (nat (barCount cfg)) (Num 0.2, Num 0.2, Num 0.2)\<rparr>)"
  by (simp add: generateSilentBars_def new_Array_fill_def)

text \<open>
  Claim C8. Called with a null snapshot, the bars generator returns a frame whenever
  \<open>barCount\<close> is an array length, and every frame it returns has \<open>barCount\<close> heights and
  peaks, all 0, whatever the manager's state; called with a null waveform, the circular
  generator returns a frame whose rotation is 0. (For a \<open>barCount\<close> that is no array
  length the allocation throws and no frame is returned.)
\<close>

theorem silence_frame_outputs:
  "(\<forall>out. fst (generateBarsVisualization cfg st None) = Inr out \<longrightarrow>
       length (bars_heights out) = nat (barCount cfg)
     \<and> length (bars_peaks out) = nat (barCount cfg)
     \<and> (\<forall>h \<in> set (bars_heights out). h = Num 0)
     \<and> (\<forall>p \<in> set (bars_peaks out). p = Num 0))
   \<and> (0 \<le> barCount cfg \<and> barCount cfg \<le> 4294967295 \<longrightarrow>
        (\<exists>out. fst (generateBarsVisualization cfg st None) = Inr out))
   \<and> circ_rotation (fst (generateCircularVisualization cfg st None width height)) = Num 0"
proof (intro conjI allI impI)
  fix out
  assume "fst (generateBarsVisualization cfg st None) = Inr out"
  then have out: "out = \<lparr>bars_heights = replicate (nat (barCount cfg)) (Num 0),
                bars_peaks = replicate (nat (barCount cfg)) (Num 0),
                bars_colors = replicate (nat (barCount cfg)) (Num 0.2, Num 0.2, Num 0.2)\<rparr>"
    by (simp add: generateBarsVisualization_def generateSilentBars_result split: if_splits)
  show "length (bars_heights out) = nat (barCount cfg)" by (simp add: out)
  show "length (bars_peaks out) = nat (barCount cfg)" by (simp add: out)
  show "\<forall>h \<in> set (bars_heights out). h = Num 0" by (simp add: out)
  show "\<forall>p \<in> set (bars_peaks out). p = Num 0" by (simp add: out)
next
  assume "0 \<le> barCount cfg \<and> barCount cfg \<le> 4294967295"
  then show "\<exists>out. fst (generateBarsVisualization cfg st None) = Inr out"
    by (simp add: generateBarsVisualization_def generateSilentBars_result)
next
  show "circ_rotation (fst (generateCircularVisualization cfg st None width height)) = Num 0"
    by (simp add: generateCircularVisualization_def generateSilentCircular_def Let_def)
qed

theorem silence_frame_outputs_witness:
  "(\<exists>out. fst (generateBarsVisualization
                \<lparr>barCount = 2, colorScheme = wmp, peakHold = True, peakDecay = Num 0.95,
                 smoothing = Num 0.8, amplification = Num 1\<rparr>
                \<lparr>peakValues = [Num 0.5, Num 1], peakHoldFrames = [Num 3, Num 30],
                 smoothedValues = [Num 0.5, Num 1], rotation = Num 2\<rparr> None) = Inr out
          \<and> bars_heights out = [Num 0, Num 0] \<and> bars_peaks out = [Num 0, Num 0])
   \<and> circ_rotation
        (fst (generateCircularVisualization
                \<lparr>barCount = 2, colorScheme = wmp, peakHold = True, peakDecay = Num 0.95,
                 smoothing = Num 0.8, amplification = Num 1\<rparr>
                \<lparr>peakValues = [Num 0.5, Num 1], peakHoldFrames = [Num 3, Num 30],
                 smoothedValues = [Num 0.5, Num 1], rotation = Num 2\<rparr>
                None (Num 800) (Num 600))) = Num 0"
  using silence_frame_outputs
    [of "\<lparr>barCount = 2, colorScheme = wmp, peakHold = True, peakDecay = Num 0.95,
          smoothing = Num 0.8, amplification = Num 1\<rparr>"
        "\<lparr>peakValues = [Num 0.5, Num 1], peakHoldFrames = [Num 3, Num 30],
          smoothedValues = [Num 0.5, Num 1], rotation = Num 2\<rparr>" "Num 800" "Num 600"]
  by (simp add: generateBarsVisualization_def generateSilentBars_result numeral_2_eq_2)

text \<open>
  Claim C10. A silence frame changes nothing in the manager: after a bars call with a null
  snapshot, or a circular call with a null waveform, the smoothed values, the peak values,
  the hold counters and the rotation are what they were (also when the bars call throws),
  so the next call on a snapshot or waveform gives what it would have given without the
  silence frame.
\<close>

theorem silence_frame_keeps_state:
  "snd (generateBarsVisualization cfg st None) = st
   \<and> snd (generateCircularVisualization cfg st None width height) = st
   \<and> generateBarsVisualization cfg (snd (generateBarsVisualization cfg st None)) frequencyData
       = generateBarsVisualization cfg st frequencyData
   \<and> generateBarsVisualization cfg
         (snd (generateCircularVisualization cfg st None width height)) frequencyData
       = generateBarsVisualization cfg st frequencyData
   \<and> generateCircularVisualization cfg (snd (generateBarsVisualization cfg st None))
         waveformData width' height'
       = generateCircularVisualization cfg st waveformData width' height'
   \<and> generateCircularVisualization cfg
         (snd (generateCircularVisualization cfg st None width height))
         waveformData width' height'
       = generateCircularVisualization cfg st waveformData width' height'"
proof -
  have b: "snd (generateBarsVisualization cfg st None) = st"
    by (simp add: generateBarsVisualization_def)
  have c: "snd (generateCircularVisualization cfg st None width height) = st"
    by (simp add: generateCircularVisualization_def)
  show ?thesis by (simp only: b c simp_thms)
qed

subsection \<open>Colors\<close>

text \<open>
  Claim C5 fails on the code at the centre glow. For an average amplitude of 0.75 (a
  waveform whose normalized samples are 0.75 and -0.75, the bytes 224 and 32) the hue is
  \<open>120 - 0.75 * 240 = -60\<close>; \<open>hsvToRgb\<close> has no sector for a negative hue, the remainder
  \<open>-1 % 2\<close> is \<open>-1\<close>, and the blue channel comes out as \<open>-1\<close>.
\<close>

theorem centerGlow_blue_negative:
  "calculateAverageAmplitude [Num 0.75, Num (- 0.75)] = Num 0.75
   \<and> calculateCenterGlowColor (Num 0.75) = (Num 1, Num 0, Num (- 1))
   \<and> glow_color (circ_centerGlow (fst (generateCircularVisualization
         \<lparr>barCount = 64, colorScheme = wmp, peakHold = True, peakDecay = Num 0.95,
          smoothing = Num 0.8, amplification = Num 1\<rparr>
         \<lparr>peakValues = replicate 64 (Num 0), peakHoldFrames = replicate 64 (Num 0),
          smoothedValues = replicate 64 (Num 0), rotation = Num 0\<rparr>
         (Some \<lparr>wf_raw = [224, 32], wf_normalized = [Num 0.75, Num (- 0.75)]\<rparr>)
         (Num 800) (Num 600))))
     = (Num 1, Num 0, Num (- 1))"
proof -
  have avg: "calculateAverageAmplitude [Num 0.75, Num (- 0.75)] = Num 0.75"
    by (simp add: calculateAverageAmplitude_def)
  have "\<lceil>- (1 / 2) :: real\<rceil> = 0" by (simp add: ceiling_eq_iff)
  then have glow: "calculateCenterGlowColor (Num 0.75) = (Num 1, Num 0, Num (- 1))"
    by (simp add: calculateCenterGlowColor_def hsvToRgb_def Let_def js_trunc_def)
  from avg glow show ?thesis
    by (simp add: generateCircularVisualization_def Let_def split_def)
qed

subsection \<open>The bars pipeline on one frame\<close>

text \<open>
  The loop of \<open>calculateBarHeights\<close> after \<open>k\<close> iterations. Each index is smoothed once, so
  the value smoothed at band \<open>i\<close> is the one a call of \<open>smoothValue\<close> on the state before
  the loop gives.
\<close>

lemma smoothValue_fst_cong:
  assumes "length (smoothedValues st') = length (smoothedValues st)"
    and "smoothedValues st' ! i = smoothedValues st ! i"
  shows "fst (smoothValue cfg st' v i) = fst (smoothValue cfg st v i)"
  using assms by (simp add: smoothValue_def Let_def)

lemma smoothValue_frame:
  "length (smoothedValues (snd (smoothValue cfg st v i))) = length (smoothedValues st)"
  "peakValues (snd (smoothValue cfg st v i)) = peakValues st"
  "peakHoldFrames (snd (smoothValue cfg st v i)) = peakHoldFrames st"
  "rotation (snd (smoothValue cfg st v i)) = rotation st"
  "j \<noteq> i \<Longrightarrow> smoothedValues (snd (smoothValue cfg st v i)) ! j = smoothedValues st ! j"
  by (simp_all add: smoothValue_def Let_def)

lemma calculateBarHeights_prefix:
  "\<exists>hs st'. fold (calculateBarHeights_body cfg logarithmicData) [0..<k] ([], st) = (hs, st')
     \<and> length hs = k
     \<and> length (smoothedValues st') = length (smoothedValues st)
     \<and> peakValues st' = peakValues st \<and> peakHoldFrames st' = peakHoldFrames st
     \<and> rotation st' = rotation st
     \<and> (\<forall>i<k. hs ! i =
            Math_max (Num 0) (Math_min (Num 1)
              (fst (smoothValue cfg st
                      (js_or0 (js_get logarithmicData i) * amplification cfg) i))))
     \<and> (\<forall>i\<ge>k. smoothedValues st' ! i = smoothedValues st ! i)"
proof (induction k)
  case 0
  show ?case by simp
next
  case (Suc k)
  then obtain hs st' where
    f: "fold (calculateBarHeights_body cfg logarithmicData) [0..<k] ([], st) = (hs, st')"
    and lh: "length hs = k"
    and ls: "length (smoothedValues st') = length (smoothedValues st)"
    and fr: "peakValues st' = peakValues st" "peakHoldFrames st' = peakHoldFrames st"
      "rotation st' = rotation st"
    and lo: "\<forall>i<k. hs ! i =
            Math_max (Num 0) (Math_min (Num 1)
              (fst (smoothValue cfg st
                      (js_or0 (js_get logarithmicData i) * amplification cfg) i)))"
    and hi: "\<forall>i\<ge>k. smoothedValues st' ! i = smoothedValues st ! i"
    by blast
  let ?v = "js_or0 (js_get logarithmicData k) * amplification cfg"
  let ?r = "smoothValue cfg st' ?v k"
  from hi have "smoothedValues st' ! k = smoothedValues st ! k" by simp
  with ls have same: "fst ?r = fst (smoothValue cfg st ?v k)"
    by (rule smoothValue_fst_cong)
  have step: "fold (calculateBarHeights_body cfg logarithmicData) [0..<Suc k] ([], st)
      = (hs @ [Math_max (Num 0) (Math_min (Num 1) (fst ?r))], snd ?r)"
    by (simp add: f calculateBarHeights_body_def Let_def split_def)
  show ?case
    unfolding step
    using lh ls fr lo hi same
    by (auto simp add: smoothValue_frame nth_append less_Suc_eq)
qed

lemma calculateBarHeights_band:
  shows "length (fst (calculateBarHeights cfg st logarithmicData)) = nat (barCount cfg)"
    and "i < nat (barCount cfg) \<Longrightarrow>
           fst (calculateBarHeights cfg st logarithmicData) ! i =
             Math_max (Num 0) (Math_min (Num 1)
               (fst (smoothValue cfg st
                       (js_or0 (js_get logarithmicData i) * amplification cfg) i)))"
    and "peakValues (snd (calculateBarHeights cfg st logarithmicData)) = peakValues st"
    and "peakHoldFrames (snd (calculateBarHeights cfg st logarithmicData)) = peakHoldFrames st"
  using calculateBarHeights_prefix[of cfg logarithmicData "nat (barCount cfg)" st]
  by (auto simp add: calculateBarHeights_def)

text \<open>With smoothing factor 1 and a finite old value the smoothed value is the new value.\<close>

lemma smoothValue_factor_one:
  assumes "smoothing cfg = Num 1" "\<forall>v \<in> set (smoothedValues st). v \<noteq> NaN"
  shows "fst (smoothValue cfg st (Num x) i) = Num x"
proof (cases "i < length (smoothedValues st)")
  case True
  with assms(2) have "smoothedValues st ! i \<noteq> NaN" by simp
  then obtain old where "smoothedValues st ! i = Num old"
    by (cases "smoothedValues st ! i") auto
  with True assms(1) show ?thesis by (simp add: smoothValue_def Let_def)
next
  case False
  then show ?thesis by (simp add: smoothValue_def)
qed

text \<open>
  The bins the 64 bands read in a snapshot of 1024 bins jump over bin 512: the bands up to 57
  read a bin below 500 (\<open>1024^(57/64)\<close> is about 479.8) and the bands from 58 on a bin above
  518 (\<open>1024^(58/64)\<close> is about 534.7).
\<close>

lemma middle_band_powers:
  "(1024::real) powr (57 / 64) < 500" "(520::real) \<le> 1024 powr (58 / 64)"
proof -
  have "(1024 :: real) ^ 57 < 500 ^ 64" by simp
  from powr_ratio_less[OF _ _ _ this] show "(1024::real) powr (57 / 64) < 500" by simp
  have "(520 :: real) ^ 64 \<le> 1024 ^ 58" by simp
  from powr_ratio_ge[OF _ _ this] show "(520::real) \<le> 1024 powr (58 / 64)" by simp
qed

lemma band_bins_avoid_512:
  assumes "length fd = 1024" "i < 64"
  shows "\<exists>k. logIndex FREQUENCY_BANDS fd i = Num (real k) \<and> k < 1024 \<and> (k < 500 \<or> 518 < k)"
proof -
  let ?y = "(1024::real) powr (real i / 64)"
  let ?v = "(?y - 1) / 1023 * 1024"
  from assms have two: "2 \<le> length fd" by simp
  from assms(2) have ib: "i < FREQUENCY_BANDS" by (simp add: FREQUENCY_BANDS_def)
  from logIndex_in_range[OF two ib] assms(1) obtain k
    where k: "logIndex FREQUENCY_BANDS fd i = Num (real k)" "k < 1024" by auto
  have "logIndex FREQUENCY_BANDS fd i = Num (of_int \<lfloor>?v\<rfloor>)"
    using logIndex_value[OF two, of FREQUENCY_BANDS i] assms(1)
    by (simp add: FREQUENCY_BANDS_def)
  with k(1) have kv: "real k = of_int \<lfloor>?v\<rfloor>" by simp
  have "k < 500 \<or> 518 < k"
  proof (cases "i \<le> 57")
    case True
    then have "real i / 64 \<le> 57 / 64" by simp
    then have "?y \<le> 1024 powr (57 / 64)" by (rule powr_mono) simp
    with middle_band_powers(1) have "?y < 500" by linarith
    then have "?v < 500" by simp
    then have "\<lfloor>?v\<rfloor> < 500" by (simp only: floor_less_iff of_int_numeral)
    with kv have "real k < 500" by simp
    then show ?thesis by simp
  next
    case False
    then have "58 / 64 \<le> real i / 64" by simp
    then have "1024 powr (58 / 64) \<le> ?y" by (rule powr_mono) simp
    with middle_band_powers(2) have "520 \<le> ?y" by linarith
    then have "519 \<le> ?v" by simp
    then have "519 \<le> \<lfloor>?v\<rfloor>" by (simp only: le_floor_iff of_int_numeral)
    with kv have "519 \<le> real k" by simp
    then show ?thesis by simp
  qed
  with k show ?thesis by blast
qed

text \<open>
  One frame of the bars pipeline (\<open>getFrequencyData\<close> on the snapshot, then
  \<open>generateBarsVisualization\<close>) with smoothing 1 on a snapshot of 1024 bins: the height of
  band \<open>i\<close> is the byte of the one bin the band reads, scaled and clamped.
\<close>

lemma single_frame_heights:
  assumes "barCount cfg = 64" "smoothing cfg = Num 1" "amplification cfg = Num a"
    and "\<forall>v \<in> set (smoothedValues st). v \<noteq> NaN"
    and "length snapshot = 1024"
  shows "\<exists>out st'.
      generateBarsVisualization cfg st (Some (fst (getFrequencyData enginePeaks snapshot)))
        = (Inr out, st')
    \<and> length (bars_heights out) = 64
    \<and> (\<forall>i<64. \<exists>k<1024.
          Math_min (logIndex FREQUENCY_BANDS snapshot i) (Num (real (length snapshot)) - Num 1)
            = Num (real k)
        \<and> k \<noteq> 512
        \<and> bars_heights out ! i
            = Num (max 0 (min 1 (real (unat (snapshot ! k)) / 255 * a))))"
proof -
  let ?fd = "fst (getFrequencyData enginePeaks snapshot)"
  let ?log = "convertToLogarithmic snapshot"
  let ?hs = "fst (calculateBarHeights cfg st ?log)"
  have log: "fd_logarithmic ?fd = ?log" by (simp add: getFrequencyData_def Let_def)
  obtain out st' where r: "generateBarsVisualization cfg st (Some ?fd) = (Inr out, st')"
    and oh: "bars_heights out = ?hs"
    by (simp add: generateBarsVisualization_def Let_def split_def log)
  have len: "length ?hs = 64" using calculateBarHeights_band(1)[of cfg st ?log] assms(1) by simp
  have bands: "\<forall>i<64. \<exists>k<1024.
          Math_min (logIndex FREQUENCY_BANDS snapshot i) (Num (real (length snapshot)) - Num 1)
            = Num (real k)
        \<and> k \<noteq> 512
        \<and> ?hs ! i = Num (max 0 (min 1 (real (unat (snapshot ! k)) / 255 * a)))"
  proof (intro allI impI)
    fix i :: nat assume i: "i < 64"
    from band_bins_avoid_512[OF assms(5) i] obtain k
      where k: "logIndex FREQUENCY_BANDS snapshot i = Num (real k)" "k < 1024" "k < 500 \<or> 518 < k"
      by blast
    from k(3) have ne: "k \<noteq> 512" by auto
    from k(2) have mn: "Math_min (logIndex FREQUENCY_BANDS snapshot i)
                          (Num (real (length snapshot)) - Num 1) = Num (real k)"
      by (simp add: k(1) assms(5))
    from assms(5) have two: "2 \<le> length snapshot" by simp
    from i have ib: "i < FREQUENCY_BANDS" by (simp add: FREQUENCY_BANDS_def)
    from k(2) assms(5) have kl: "k < length snapshot" by simp
    have bv: "?log ! i = Num (real (unat (snapshot ! k)) / 255)"
      using band_value[OF two ib k(1) kl] by (simp add: convertToLogarithmic_def)
    have ll: "length ?log = 64"
      by (simp add: convertToLogarithmic_def convertToLogarithmic_bands_def FREQUENCY_BANDS_def)
    have or0: "js_or0 (js_get ?log i) = Num (real (unat (snapshot ! k)) / 255)"
      using i ll bv by (simp add: js_get_def js_or0_def)
    from i assms(1) have ibc: "i < nat (barCount cfg)" by simp
    have "?hs ! i = Math_max (Num 0) (Math_min (Num 1)
            (fst (smoothValue cfg st (Num (real (unat (snapshot ! k)) / 255 * a)) i)))"
      using calculateBarHeights_band(2)[OF ibc, of st ?log] or0 assms(3) by simp
    also have "\<dots> = Num (max 0 (min 1 (real (unat (snapshot ! k)) / 255 * a)))"
      by (simp add: smoothValue_factor_one[OF assms(2,4)])
    finally show "\<exists>k<1024.
          Math_min (logIndex FREQUENCY_BANDS snapshot i) (Num (real (length snapshot)) - Num 1)
            = Num (real k)
        \<and> k \<noteq> 512
        \<and> ?hs ! i = Num (max 0 (min 1 (real (unat (snapshot ! k)) / 255 * a)))"
      using k(2) ne mn by blast
  qed
  from r oh len bands show ?thesis by auto
qed

lemma single_bin_512_heights:
  assumes "barCount cfg = 64" "smoothing cfg = Num 1" "amplification cfg = Num a"
    and "\<forall>v \<in> set (smoothedValues st). v \<noteq> NaN"
    and "length snapshot = 1024"
    and "\<forall>k<1024. k \<noteq> 512 \<longrightarrow> snapshot ! k = 0"
  shows "\<exists>out st'.
      generateBarsVisualization cfg st (Some (fst (getFrequencyData enginePeaks snapshot)))
        = (Inr out, st')
    \<and> bars_heights out = replicate 64 (Num 0)"
proof -
  from single_frame_heights[OF assms(1-5), of enginePeaks] obtain out st'
    where r: "generateBarsVisualization cfg st
                (Some (fst (getFrequencyData enginePeaks snapshot))) = (Inr out, st')"
      and len: "length (bars_heights out) = 64"
      and hs: "\<forall>i<64. \<exists>k<1024.
          Math_min (logIndex FREQUENCY_BANDS snapshot i) (Num (real (length snapshot)) - Num 1)
            = Num (real k)
        \<and> k \<noteq> 512
        \<and> bars_heights out ! i
            = Num (max 0 (min 1 (real (unat (snapshot ! k)) / 255 * a)))"
    by blast
  have "\<forall>i<64. bars_heights out ! i = Num 0"
  proof (intro allI impI)
    fix i :: nat assume "i < 64"
    with hs obtain k where k: "k < 1024" "k \<noteq> 512"
      "bars_heights out ! i = Num (max 0 (min 1 (real (unat (snapshot ! k)) / 255 * a)))"
      by blast
    from k(1,2) assms(6) have "snapshot ! k = 0" by simp
    with k(3) show "bars_heights out ! i = Num 0" by simp
  qed
  with len have "bars_heights out = replicate 64 (Num 0)"
    by (simp add: list_eq_iff_nth_eq)
  with r show ?thesis by blast
qed

text \<open>
  Claim C3, as amended. With 64 bands and a snapshot of 1024 bins, after one frame of the
  bars pipeline with smoothing 1 (on a smoother state of finite values, amplification \<open>a\<close>)
  the height of band \<open>i\<close> is the byte of the single bin the band's log index selects,
  divided by 255, times \<open>a\<close>, clamped to \<open>[0, 1]\<close>; no band selects bin 512. So on the
  snapshot that is zero except for bin 512 every band has height 0.
\<close>

theorem bars_single_bin_frame:
  assumes "barCount cfg = 64" "smoothing cfg = Num 1" "amplification cfg = Num a"
    and "\<forall>v \<in> set (smoothedValues st). v \<noteq> NaN"
    and "length snapshot = 1024"
  shows "\<exists>out st'.
      generateBarsVisualization cfg st (Some (fst (getFrequencyData enginePeaks snapshot)))
        = (Inr out, st')
    \<and> length (bars_heights out) = 64
    \<and> (\<forall>i<64. \<exists>k<1024.
          Math_min (logIndex FREQUENCY_BANDS snapshot i) (Num (real (length snapshot)) - Num 1)
            = Num (real k)
        \<and> k \<noteq> 512
        \<and> bars_heights out ! i
            = Num (max 0 (min 1 (real (unat (snapshot ! k)) / 255 * a))))
    \<and> ((\<forall>k<1024. k \<noteq> 512 \<longrightarrow> snapshot ! k = 0)
          \<longrightarrow> bars_heights out = replicate 64 (Num 0))"
proof -
  from single_frame_heights[OF assms, of enginePeaks] obtain out st'
    where r: "generateBarsVisualization cfg st
                (Some (fst (getFrequencyData enginePeaks snapshot))) = (Inr out, st')"
      and rest: "length (bars_heights out) = 64"
        "\<forall>i<64. \<exists>k<1024.
          Math_min (logIndex FREQUENCY_BANDS snapshot i) (Num (real (length snapshot)) - Num 1)
            = Num (real k)
        \<and> k \<noteq> 512
        \<and> bars_heights out ! i
            = Num (max 0 (min 1 (real (unat (snapshot ! k)) / 255 * a)))"
    by blast
  have "bars_heights out = replicate 64 (Num 0)"
    if z: "\<forall>k<1024. k \<noteq> 512 \<longrightarrow> snapshot ! k = 0"
    using single_bin_512_heights[OF assms z, of enginePeaks] r by auto
  with r rest show ?thesis by blast
qed

theorem bars_single_bin_frame_witness:
  "barCount \<lparr>barCount = 64, colorScheme = wmp, peakHold = True, peakDecay = Num 0.95,
      smoothing = Num 1, amplification = Num 1\<rparr> = 64
   \<and> length ((replicate 1024 (0 :: 8 word))[512 := 255]) = 1024
   \<and> (\<exists>out st'.
        generateBarsVisualization
          \<lparr>barCount = 64, colorScheme = wmp, peakHold = True, peakDecay = Num 0.95,
           smoothing = Num 1, amplification = Num 1\<rparr>
          \<lparr>peakValues = replicate 64 (Num 0), peakHoldFrames = replicate 64 (Num 0),
           smoothedValues = replicate 64 (Num 0), rotation = Num 0\<rparr>
          (Some (fst (getFrequencyData (replicate 64 (Num 0))
                        ((replicate 1024 0)[512 := 255]))))
          = (Inr out, st')
        \<and> length (bars_heights out) = 64
        \<and> bars_heights out = replicate 64 (Num 0))"
  using bars_single_bin_frame
    [of "\<lparr>barCount = 64, colorScheme = wmp, peakHold = True, peakDecay = Num 0.95,
          smoothing = Num 1, amplification = Num 1\<rparr>" 1
        "\<lparr>peakValues = replicate 64 (Num 0), peakHoldFrames = replicate 64 (Num 0),
          smoothedValues = replicate 64 (Num 0), rotation = Num 0\<rparr>"
        "(replicate 1024 0)[512 := 255]" "replicate 64 (Num 0)"]
  by (simp add: nth_list_update) blast

text \<open>
  Claim C3 as stated fails: on the snapshot of the claim, from the constructor's state, it
  is not the case that exactly one band has a height above 0.
\<close>

theorem bars_single_bin_counterexample:
  "\<not> (\<exists>out st'.
        generateBarsVisualization
          \<lparr>barCount = 64, colorScheme = wmp, peakHold = True, peakDecay = Num 0.95,
           smoothing = Num 1, amplification = Num 1\<rparr>
          \<lparr>peakValues = replicate 64 (Num 0), peakHoldFrames = replicate 64 (Num 0),
           smoothedValues = replicate 64 (Num 0), rotation = Num 0\<rparr>
          (Some (fst (getFrequencyData (replicate 64 (Num 0))
                        ((replicate 1024 0)[512 := 255]))))
          = (Inr out, st')
        \<and> (\<exists>!i. i < 64 \<and> Num 0 < bars_heights out ! i))"
proof
  let ?cfg = "\<lparr>barCount = 64, colorScheme = wmp, peakHold = True, peakDecay = Num 0.95,
           smoothing = Num 1, amplification = Num 1\<rparr>"
  let ?st = "\<lparr>peakValues = replicate 64 (Num 0), peakHoldFrames = replicate 64 (Num 0),
           smoothedValues = replicate 64 (Num 0), rotation = Num 0\<rparr>"
  let ?snap = "(replicate 1024 (0 :: 8 word))[512 := 255]"
  let ?call = "generateBarsVisualization ?cfg ?st
                 (Some (fst (getFrequencyData (replicate 64 (Num 0)) ?snap)))"
  assume "\<exists>out st'. ?call = (Inr out, st') \<and> (\<exists>!i. i < 64 \<and> Num 0 < bars_heights out ! i)"
  then obtain out st' i where c: "?call = (Inr out, st')"
    and i: "i < 64" "Num 0 < bars_heights out ! i"
    by blast
  have "\<exists>out st'. ?call = (Inr out, st') \<and> bars_heights out = replicate 64 (Num 0)"
    by (rule single_bin_512_heights[where a = 1]) (simp_all add: nth_list_update)
  with c have "bars_heights out = replicate 64 (Num 0)" by auto
  with i show False by simp
qed

subsection \<open>Configurations the specification calls invalid\<close>

lemma generateCircularVisualization_body_length:
  "length (fst (fold (generateCircularVisualization_body cfg normalized centerX centerY
                        baseRadius angleStep) xs acc))
     = length (fst acc) + length xs"
proof (induction xs arbitrary: acc)
  case Nil
  show ?case by simp
next
  case (Cons i xs)
  have "length (fst (generateCircularVisualization_body cfg normalized centerX centerY
                        baseRadius angleStep i acc)) = Suc (length (fst acc))"
    by (simp add: generateCircularVisualization_body_def Let_def split_def)
  with Cons show ?case by simp
qed

lemma generateCircularVisualization_points:
  "length (circ_points (fst (generateCircularVisualization cfg st waveformData width height)))
     = 256"
proof (cases waveformData)
  case None
  then show ?thesis
    by (simp add: generateCircularVisualization_def generateSilentCircular_def Let_def)
next
  case (Some wd)
  then show ?thesis
    by (simp add: generateCircularVisualization_def Let_def split_def
        generateCircularVisualization_body_length)
qed

lemma convertToLogarithmic_short_snapshot:
  assumes "length fd < 2"
  shows "convertToLogarithmic fd = replicate 64 NaN"
proof -
  have "u8_get fd (Math_min (logIndex FREQUENCY_BANDS fd i)
                     (Num (real (length fd)) - Num 1)) / Num 255 = NaN" for i
  proof (cases "length fd = 0")
    case True
    then show ?thesis by (simp add: logIndex_def Let_def)
  next
    case False
    with assms have "length fd = 1" by linarith
    then show ?thesis by (simp add: logIndex_def Let_def)
  qed
  then have "convertToLogarithmic fd = map (\<lambda>i. NaN) [0..<64]"
    by (simp add: convertToLogarithmic_def convertToLogarithmic_bands_def Let_def
        FREQUENCY_BANDS_def)
  then show ?thesis by (simp add: map_replicate_const)
qed

lemma generateBarsVisualization_snapshot:
  "\<exists>out st'. generateBarsVisualization cfg st (Some fd) = (Inr out, st')
     \<and> length (bars_heights out) = nat (barCount cfg)
     \<and> length (bars_peaks out) = nat (barCount cfg)
     \<and> length (bars_colors out) = nat (barCount cfg)"
proof -
  let ?h = "calculateBarHeights cfg st (fd_logarithmic fd)"
  let ?p = "calculatePeaks cfg (snd ?h) (fst ?h)"
  have lh: "length (fst ?h) = nat (barCount cfg)" by (rule calculateBarHeights_band(1))
  have "length (fst (fold (calculatePeaks_body cfg hs) xs acc)) = length (fst acc) + length xs"
    for hs xs acc
  proof (induction xs arbitrary: acc)
    case Nil
    show ?case by simp
  next
    case (Cons i xs)
    have "length (fst (calculatePeaks_body cfg hs i acc)) = Suc (length (fst acc))"
      by (simp add: calculatePeaks_body_def Let_def split_def)
    with Cons show ?case by simp
  qed
  then have lp: "length (fst ?p) = length (fst ?h)" by (simp add: calculatePeaks_def)
  show ?thesis
    using lh lp
    by (simp add: generateBarsVisualization_def Let_def split_def calculateBarColors_def)
qed

text \<open>
  Claim C6, as amended. No generator or mapper checks its configuration, and none fails
  with \<open>InvalidConfiguration\<close>: the circular generator returns a frame of 256 points for
  every width and height, the bars generator called with a snapshot returns a frame of
  \<open>max(barCount, 0)\<close> bars for every \<open>barCount\<close> and every content of the snapshot, and the
  band mapper returns 64 values for every snapshot, all of them \<open>NaN\<close> when the snapshot has
  fewer than 2 bins. The one exception the code raises is the \<open>RangeError\<close> of
  \<open>new Array(barCount)\<close>, in the bars generator called with a null snapshot, exactly when
  \<open>barCount\<close> is no array length.
\<close>

theorem no_configuration_check:
  "length (circ_points (fst (generateCircularVisualization cfg st waveformData width height)))
     = 256
   \<and> (\<exists>out st'. generateBarsVisualization cfg st (Some fd) = (Inr out, st')
         \<and> length (bars_heights out) = nat (barCount cfg))
   \<and> length (convertToLogarithmic snapshot) = 64
   \<and> (length snapshot < 2 \<longrightarrow> convertToLogarithmic snapshot = replicate 64 NaN)
   \<and> (fst (generateBarsVisualization cfg st None) = Inl RangeError
        \<longleftrightarrow> barCount cfg < 0 \<or> 4294967295 < barCount cfg)"
proof (intro conjI impI)
  show "length (circ_points (fst (generateCircularVisualization cfg st waveformData
          width height))) = 256"
    by (rule generateCircularVisualization_points)
  show "\<exists>out st'. generateBarsVisualization cfg st (Some fd) = (Inr out, st')
         \<and> length (bars_heights out) = nat (barCount cfg)"
    using generateBarsVisualization_snapshot[of cfg st fd] by blast
  show "length (convertToLogarithmic snapshot) = 64"
    by (simp add: convertToLogarithmic_def convertToLogarithmic_bands_def FREQUENCY_BANDS_def)
  show "convertToLogarithmic snapshot = replicate 64 NaN" if "length snapshot < 2"
    using that by (rule convertToLogarithmic_short_snapshot)
  show "fst (generateBarsVisualization cfg st None) = Inl RangeError
        \<longleftrightarrow> barCount cfg < 0 \<or> 4294967295 < barCount cfg"
    by (simp add: generateBarsVisualization_def generateSilentBars_result)
qed

theorem no_configuration_check_witness:
  "length (circ_points (fst (generateCircularVisualization
       \<lparr>barCount = - 1, colorScheme = wmp, peakHold = True, peakDecay = Num 0.95,
        smoothing = Num 0.8, amplification = Num 1\<rparr>
       \<lparr>peakValues = [], peakHoldFrames = [], smoothedValues = [], rotation = Num 0\<rparr>
       (Some \<lparr>wf_raw = [], wf_normalized = []\<rparr>) (Num 0) (Num (- 5))))) = 256
   \<and> length ([] :: 8 word list) < 2
   \<and> convertToLogarithmic [] = replicate 64 NaN
   \<and> fst (generateBarsVisualization
       \<lparr>barCount = - 1, colorScheme = wmp, peakHold = True, peakDecay = Num 0.95,
        smoothing = Num 0.8, amplification = Num 1\<rparr>
       \<lparr>peakValues = [], peakHoldFrames = [], smoothedValues = [], rotation = Num 0\<rparr>
       None) = Inl RangeError"
  using no_configuration_check
    [of "\<lparr>barCount = - 1, colorScheme = wmp, peakHold = True, peakDecay = Num 0.95,
          smoothing = Num 0.8, amplification = Num 1\<rparr>"
        "\<lparr>peakValues = [], peakHoldFrames = [], smoothedValues = [], rotation = Num 0\<rparr>"
        "Some \<lparr>wf_raw = [], wf_normalized = []\<rparr>" "Num 0" "Num (- 5)" _ "[]"]
  by simp

text \<open>
  Claim C6 as stated fails: with \<open>barCount = 0\<close> the bars generator returns a frame, the
  empty one, and on the empty snapshot the band mapper returns its 64 values.
\<close>

theorem invalid_configuration_counterexample:
  "generateBarsVisualization
     \<lparr>barCount = 0, colorScheme = wmp, peakHold = True, peakDecay = Num 0.95,
      smoothing = Num 0.8, amplification = Num 1\<rparr>
     \<lparr>peakValues = [], peakHoldFrames = [], smoothedValues = [], rotation = Num 0\<rparr>
     (Some \<lparr>fd_raw = [], fd_logarithmic = [], fd_peaks = []\<rparr>)
   = (Inr \<lparr>bars_heights = [], bars_peaks = [], bars_colors = []\<rparr>,
      \<lparr>peakValues = [], peakHoldFrames = [], smoothedValues = [], rotation = Num 0\<rparr>)
   \<and> convertToLogarithmic [] = replicate 64 NaN"
  by (simp add: generateBarsVisualization_def calculateBarHeights_def calculatePeaks_def
      calculateBarColors_def convertToLogarithmic_short_snapshot)

end
